theory Spec2Isabelle
  imports Main
begin

section \<open>Data model of the movies store\<close>

text \<open>
  The store under verification is the class \<open>MoviesStore\<close> (search and pagination
  coordinator) together with the view binding \<open>selectPage\<close> of the pagination component.
  Page numbers are JavaScript numbers (IEEE 754 doubles) that hold integers. They are
  modelled as \<open>int\<close>; an integer that is not the value of a double is not an input.
  The sum of two such numbers is rounded to the nearest double, which matters from
  \<open>2^53\<close> on. The only non-integer number the store can produce is \<open>NaN\<close>
  (arithmetic on \<open>undefined\<close>), which is kept as a value of its own.
\<close>

datatype MovieSearchErrorType = BadInput | ServerError

record MovieSearchError =
  type :: MovieSearchErrorType
  message :: string

definition MIN_CHARACTERS_FOR_SEARCH :: nat where
  "MIN_CHARACTERS_FOR_SEARCH = 3"

definition SERVER_ERROR :: MovieSearchError where
  "SERVER_ERROR =
     \<lparr>type = ServerError, message = ''Oops, something went wrong. Please try again later.''\<rparr>"

text \<open>
  The object literal built in the error pipeline: the template string
  \<open>Please enter at least ${MIN_CHARACTERS_FOR_SEARCH} characters\<close> with the constant 3
  substituted.
\<close>

definition BAD_INPUT :: MovieSearchError where
  "BAD_INPUT = \<lparr>type = BadInput, message = ''Please enter at least 3 characters''\<rparr>"

text \<open>
  \<open>MoviesPage\<close> is declared in \<open>~data/types\<close>; the store reads its fields \<open>page\<close>,
  \<open>totalPages\<close> and \<open>movies\<close>. The store never looks inside a \<open>Movie\<close>, so the
  movie type is the parameter \<open>'m\<close>.
\<close>

record 'm MoviesPage =
  page :: int
  totalPages :: int
  movies :: "'m list"

subsection \<open>JavaScript numbers and sets\<close>

datatype jsnum = Num int | NaN

text \<open>
  The result of an integer addition or subtraction as a double. Integers of magnitude up
  to \<open>2^53\<close> are doubles. A larger integer \<open>n\<close> with \<open>b\<close> binary digits lies between
  two neighbouring doubles, which are multiples of \<open>2^(b - 53)\<close>; the result is the
  nearer one, and the one with the even multiplier when \<open>n\<close> is half way. (Results
  beyond the largest double do not arise: the operands are doubles and the store adds or
  subtracts at most 2.)
\<close>

fun bit_length :: "nat \<Rightarrow> nat" where
  "bit_length n = (if n = 0 then 0 else Suc (bit_length (n div 2)))"

declare bit_length.simps [simp del]

definition to_double :: "int \<Rightarrow> int" where
  "to_double n =
     (if \<bar>n\<bar> \<le> 2 ^ 53 then n
      else let u = 2 ^ (bit_length (nat \<bar>n\<bar>) - 53);
               q = n div u;
               r = n mod u
           in if 2 * r < u then q * u
              else if u < 2 * r then (q + 1) * u
              else if even q then q * u
              else (q + 1) * u)"

text \<open>\<open>x + k\<close> and \<open>x - k\<close> where \<open>x\<close> may be \<open>undefined\<close>: the result is \<open>NaN\<close> then.\<close>

fun plus_undefined :: "int option \<Rightarrow> int \<Rightarrow> jsnum" where
  "plus_undefined None k = NaN"
| "plus_undefined (Some x) k = Num (to_double (x + k))"

text \<open>Comparisons with \<open>NaN\<close> are false.\<close>

fun js_gt :: "jsnum \<Rightarrow> int \<Rightarrow> bool" where
  "js_gt NaN k = False"
| "js_gt (Num x) k = (x > k)"

fun js_le :: "jsnum \<Rightarrow> int \<Rightarrow> bool" where
  "js_le NaN k = False"
| "js_le (Num x) k = (x \<le> k)"

text \<open>
  \<open>new Set(iterable)\<close> adds the elements one by one; an element already present is
  skipped, and iteration (\<open>Array.from\<close>) follows insertion order. \<open>NaN\<close> is equal to
  itself for a \<open>Set\<close> (SameValueZero).
\<close>

definition set_add :: "'a list \<Rightarrow> 'a \<Rightarrow> 'a list" where
  "set_add acc x = (if x \<in> set acc then acc else acc @ [x])"

definition new_Set :: "'a list \<Rightarrow> 'a list" where
  "new_Set xs = foldl set_add [] xs"

subsection \<open>Derived getters\<close>

text \<open>All getters are functions of the observable array \<open>_moviesResponses\<close>.\<close>

definition totalPages_of :: "'m MoviesPage list \<Rightarrow> int" where
  "totalPages_of rs = (case rs of [] \<Rightarrow> 0 | r # _ \<Rightarrow> totalPages r)"

definition currentPages :: "'m MoviesPage list \<Rightarrow> int list" where
  "currentPages rs = map page rs"

definition firstOfCurrentPages :: "'m MoviesPage list \<Rightarrow> int option" where
  "firstOfCurrentPages rs = (case currentPages rs of [] \<Rightarrow> None | p # _ \<Rightarrow> Some p)"

definition lastOfCurrentPages :: "'m MoviesPage list \<Rightarrow> int option" where
  "lastOfCurrentPages rs =
     (if currentPages rs = [] then None else Some (last (currentPages rs)))"

definition movies_of :: "'m MoviesPage list \<Rightarrow> 'm list" where
  "movies_of rs = concat (map movies rs)"

definition candidatePages :: "'m MoviesPage list \<Rightarrow> jsnum list" where
  "candidatePages rs =
     (let currentLowestPage = firstOfCurrentPages rs;
          currentHighestPage = lastOfCurrentPages rs
      in [Num 1, Num 2,
          plus_undefined currentLowestPage (- 2),
          plus_undefined currentLowestPage (- 1)]
         @ map Num (currentPages rs)
         @ [plus_undefined currentHighestPage 1,
            plus_undefined currentHighestPage 2,
            Num (to_double (totalPages_of rs - 1)),
            Num (totalPages_of rs)])"

definition pagesToPickFrom :: "'m MoviesPage list \<Rightarrow> jsnum list" where
  "pagesToPickFrom rs =
     filter (\<lambda>page. js_gt page 0 \<and> js_le page (totalPages_of rs))
       (new_Set (candidatePages rs))"

subsection \<open>The claimed page strip, in the words of the specification\<close>

text \<open>
  The specification describes \<open>pagesToPickFrom\<close> as the set
  \<open>{1, 2, lowest-2, lowest-1, ...currentPages, highest+1, highest+2, totalPages-1, totalPages}\<close>,
  filtered to the range \<open>[1, totalPages]\<close>, deduplicated and sorted ascending. Here
  \<open>lowest\<close> and \<open>highest\<close> are the least and the greatest page number of the window,
  and the arithmetic is that of the integers; with an empty window the boundary-derived
  candidates do not exist.
\<close>

definition spec_candidates :: "'m MoviesPage list \<Rightarrow> int list" where
  "spec_candidates rs =
     [1, 2]
     @ (if currentPages rs = [] then []
        else [Min (set (currentPages rs)) - 2, Min (set (currentPages rs)) - 1])
     @ currentPages rs
     @ (if currentPages rs = [] then []
        else [Max (set (currentPages rs)) + 1, Max (set (currentPages rs)) + 2])
     @ [totalPages_of rs - 1, totalPages_of rs]"

definition pagesToPickFrom_spec :: "'m MoviesPage list \<Rightarrow> int list" where
  "pagesToPickFrom_spec rs =
     sort (remdups (filter (\<lambda>n. 1 \<le> n \<and> n \<le> totalPages_of rs) (spec_candidates rs)))"

text \<open>
  The windows on which the arithmetic of the getter is exact: every page number and
  \<open>totalPages\<close> stay within \<open>2^53\<close> when 2 is added or subtracted.
\<close>

definition exact_pages :: "'m MoviesPage list \<Rightarrow> bool" where
  "exact_pages rs =
     (list_all (\<lambda>p. \<bar>p\<bar> + 2 \<le> 2 ^ 53) (currentPages rs) \<and> \<bar>totalPages_of rs\<bar> + 2 \<le> 2 ^ 53)"

section \<open>The reactive pipelines as a state machine\<close>

text \<open>
  The constructor of \<open>MoviesStore\<close> builds three subscriptions from RxJS operators.
  The model is their discrete-event semantics, with a virtual clock in milliseconds:

  \<^item> a \<open>Subject\<close> delivers a value to its subscribers synchronously, in the order in
    which they subscribed; \<open>share()\<close> multicasts through such a subject;
  \<^item> \<open>debounceTime(500)\<close> holds the latest value and emits it 500 ms after the last
    one arrived;
  \<^item> \<open>combineLatest\<close> subscribes to its sources in order and, once every source has
    emitted, emits on every emission of any source; \<open>startWith(1)\<close> emits 1 on
    subscription;
  \<^item> \<open>switchMap\<close> drops the inner subscription it holds, calls its function and
    subscribes to the result; an answer to a dropped inner subscription is not seen;
  \<^item> an error notification reaches the \<open>error\<close> callback and ends the subscription;
  \<^item> the remote client \<open>_moviesApi.search\<close> answers asynchronously, once per call,
    with a page or with a failure.

  A remote call is an invocation of \<open>_moviesApi.search\<close>; the calls are recorded in
  the state, and a call is named by its position in that record.
\<close>

subsection \<open>Query validity\<close>

text \<open>
  A query is a JavaScript string; its code units are modelled as \<open>char\<close> (the code
  units 0 to 255). \<open>trim\<close> removes white space and line terminators from both ends;
  in this range these are TAB, LF, VT, FF, CR, SPACE and NBSP.
\<close>

definition is_whitespace :: "char \<Rightarrow> bool" where
  "is_whitespace c =
     (c \<in> set [CHR 0x09, CHR 0x0A, CHR 0x0B, CHR 0x0C, CHR 0x0D, CHR 0x20, CHR 0xA0])"

definition trim :: "string \<Rightarrow> string" where
  "trim s = rev (dropWhile is_whitespace (rev (dropWhile is_whitespace s)))"

definition isQueryValid :: "string \<Rightarrow> bool" where
  "isQueryValid query = (length (trim query) \<ge> MIN_CHARACTERS_FOR_SEARCH)"

subsection \<open>State\<close>

text \<open>
  The first three fields are the observable fields of the class (\<open>_error\<close>,
  \<open>_noResultsFound\<close>, \<open>_moviesResponses\<close>). The others are the state that the RxJS
  operators of the constructor hold:

  \<^item> \<open>clock\<close>: the virtual time in milliseconds;
  \<^item> \<open>debouncePending\<close>: the value held by \<open>debounceTime(500)\<close> and the time at which
    it is emitted (each new value replaces the previous one and restarts the interval);
  \<^item> \<open>badInputPending\<close>: the time at which \<open>delay(500)\<close> delivers the BadInput error
    that the error pipeline's \<open>switchMap\<close> currently holds;
  \<^item> \<open>searchQuery\<close>, \<open>searchPage\<close>: the latest values of the two sources of the first
    \<open>combineLatest\<close> (the valid committed query; the page, which \<open>startWith(1)\<close>
    initialises);
  \<^item> \<open>moreQuery\<close>, \<open>moreTriggered\<close>: the latest values of the two sources of the second
    \<open>combineLatest\<close> (the raw \<open>_searchString$\<close>; whether \<open>_loadMore$\<close> has emitted);
  \<^item> \<open>searchInFlight\<close>, \<open>moreInFlight\<close>: the inner subscription each \<open>switchMap\<close>
    holds, named by the index of its call in \<open>searchCalls\<close>;
  \<^item> \<open>searchAlive\<close>, \<open>moreAlive\<close>: whether the subscription of the pipeline still
    exists (an error notification ends a subscription);
  \<^item> \<open>searchCalls\<close>: the arguments of every call of \<open>_moviesApi.search\<close>, in order;
  \<^item> \<open>loggedErrors\<close>: the arguments of every call of \<open>logger.error\<close>, in order;
  \<^item> \<open>unhandledErrors\<close>: the error notifications that found no \<open>error\<close> callback;
    RxJS throws these to the host, outside the store.
\<close>

record 'm MoviesStore =
  error :: "MovieSearchError option"
  noResultsFound :: bool
  moviesResponses :: "'m MoviesPage list"
  clock :: nat
  debouncePending :: "(nat \<times> string) option"
  badInputPending :: "nat option"
  searchAlive :: bool
  searchQuery :: "string option"
  searchPage :: int
  searchInFlight :: "nat option"
  moreAlive :: bool
  moreQuery :: "string option"
  moreTriggered :: bool
  moreInFlight :: "nat option"
  searchCalls :: "(string \<times> int) list"
  loggedErrors :: "(string \<times> string) list"
  unhandledErrors :: "string list"

text \<open>The store after its constructor has run.\<close>

definition MoviesStore_init :: "'m MoviesStore" where
  "MoviesStore_init =
     \<lparr>error = None, noResultsFound = False, moviesResponses = [],
      clock = 0, debouncePending = None, badInputPending = None,
      searchAlive = True, searchQuery = None, searchPage = 1, searchInFlight = None,
      moreAlive = True, moreQuery = None, moreTriggered = False, moreInFlight = None,
      searchCalls = [], loggedErrors = [], unhandledErrors = []\<rparr>"

datatype 'm response = Success "'m MoviesPage" | Failure string

text \<open>
  An error notification arrives at a subscription: it goes to the \<open>error\<close> callback
  that was passed to \<open>subscribe\<close>; a subscription without one lets the error escape.
\<close>

definition notify_error ::
  "(string \<Rightarrow> 'm MoviesStore \<Rightarrow> 'm MoviesStore) option \<Rightarrow> string \<Rightarrow> 'm MoviesStore \<Rightarrow> 'm MoviesStore"
  where
  "notify_error callback cause s =
     (case callback of
        Some handler \<Rightarrow> handler cause s
      | None \<Rightarrow> s\<lparr>unhandledErrors := unhandledErrors s @ [cause]\<rparr>)"

subsection \<open>The fresh-search pipeline\<close>

text \<open>
  An emission of the first \<open>combineLatest\<close> into its \<open>switchMap\<close>: nothing is emitted
  before both sources have a value; otherwise the previous inner subscription is dropped
  and \<open>_moviesApi.search({query, page})\<close> is called.
\<close>

definition search_emit :: "'m MoviesStore \<Rightarrow> 'm MoviesStore" where
  "search_emit s =
     (case searchQuery s of
        None \<Rightarrow> s
      | Some searchString \<Rightarrow>
          s\<lparr>searchCalls := searchCalls s @ [(searchString, searchPage s)],
            searchInFlight := Some (length (searchCalls s))\<rparr>)"

definition setCurrentPage :: "int \<Rightarrow> 'm MoviesStore \<Rightarrow> 'm MoviesStore" where
  "setCurrentPage p s = (if searchAlive s then search_emit (s\<lparr>searchPage := p\<rparr>) else s)"

text \<open>The view binding of the pagination component.\<close>

definition selectPage :: "int \<Rightarrow> 'm MoviesStore \<Rightarrow> 'm MoviesStore" where
  "selectPage p s =
     (if p > 0 \<and> p \<le> totalPages_of (moviesResponses s) then setCurrentPage p s else s)"

text \<open>The \<open>next\<close> and \<open>error\<close> callbacks of the first subscription.\<close>

definition search_next :: "'m MoviesPage \<Rightarrow> 'm MoviesStore \<Rightarrow> 'm MoviesStore" where
  "search_next moviesData s =
     s\<lparr>moviesResponses := [] @ [moviesData],
       noResultsFound := (length (movies moviesData) = 0)\<rparr>"

definition search_error :: "string \<Rightarrow> 'm MoviesStore \<Rightarrow> 'm MoviesStore" where
  "search_error cause s =
     s\<lparr>error := Some SERVER_ERROR,
       loggedErrors := loggedErrors s @ [(''Failed getting movies: '', cause)]\<rparr>"

text \<open>
  The remote client answers call \<open>i\<close>. An answer to a call that the \<open>switchMap\<close> no
  longer holds is dropped. A success completes the inner subscription; a failure goes
  to the \<open>error\<close> callback and ends the subscription of the whole pipeline.
\<close>

definition searchResponse :: "nat \<Rightarrow> 'm response \<Rightarrow> 'm MoviesStore \<Rightarrow> 'm MoviesStore" where
  "searchResponse i r s =
     (if searchInFlight s = Some i then
        (case r of
           Success moviesData \<Rightarrow> search_next moviesData (s\<lparr>searchInFlight := None\<rparr>)
         | Failure cause \<Rightarrow>
             notify_error (Some search_error) cause
               (s\<lparr>searchInFlight := None, searchAlive := False\<rparr>))
      else s)"

subsection \<open>The load-more pipeline\<close>

text \<open>
  An emission of the second \<open>combineLatest\<close> into its \<open>switchMap\<close>; the page is
  \<open>(this.lastOfCurrentPages ?? 1) + 1\<close>, read when the emission happens.
\<close>

definition more_emit :: "'m MoviesStore \<Rightarrow> 'm MoviesStore" where
  "more_emit s =
     (case moreQuery s of
        None \<Rightarrow> s
      | Some searchString \<Rightarrow>
          if moreTriggered s then
            s\<lparr>searchCalls := searchCalls s @
                 [(searchString,
                   to_double
                     ((case lastOfCurrentPages (moviesResponses s) of None \<Rightarrow> 1 | Some l \<Rightarrow> l)
                      + 1))],
              moreInFlight := Some (length (searchCalls s))\<rparr>
          else s)"

definition loadMore :: "'m MoviesStore \<Rightarrow> 'm MoviesStore" where
  "loadMore s = (if moreAlive s then more_emit (s\<lparr>moreTriggered := True\<rparr>) else s)"

definition more_next :: "'m MoviesPage \<Rightarrow> 'm MoviesStore \<Rightarrow> 'm MoviesStore" where
  "more_next moviesData s = s\<lparr>moviesResponses := moviesResponses s @ [moviesData]\<rparr>"

definition more_error :: "string \<Rightarrow> 'm MoviesStore \<Rightarrow> 'm MoviesStore" where
  "more_error cause s =
     s\<lparr>error := Some SERVER_ERROR,
       loggedErrors := loggedErrors s @ [(''Failed getting more movies for page: '', cause)]\<rparr>"

definition moreResponse :: "nat \<Rightarrow> 'm response \<Rightarrow> 'm MoviesStore \<Rightarrow> 'm MoviesStore" where
  "moreResponse i r s =
     (if moreInFlight s = Some i then
        (case r of
           Success moviesData \<Rightarrow> more_next moviesData (s\<lparr>moreInFlight := None\<rparr>)
         | Failure cause \<Rightarrow>
             notify_error (Some more_error) cause
               (s\<lparr>moreInFlight := None, moreAlive := False\<rparr>))
      else s)"

subsection \<open>Query input, debounce and the error pipeline\<close>

text \<open>
  \<open>searchForString\<close> feeds \<open>_searchString$\<close>. Its subscribers are \<open>debounceTime(500)\<close>,
  which restarts its interval with the new value, and the first source of the load-more
  pipeline's \<open>combineLatest\<close>.
\<close>

definition searchForString :: "string \<Rightarrow> 'm MoviesStore \<Rightarrow> 'm MoviesStore" where
  "searchForString val s =
     (let s1 = s\<lparr>debouncePending := Some (clock s + 500, val)\<rparr>
      in if moreAlive s1 then more_emit (s1\<lparr>moreQuery := Some val\<rparr>) else s1)"

text \<open>
  An emission of the shared \<open>searchInput$\<close> (a committed query). Its subscribers, in
  the order in which the constructor subscribed them: the \<open>filter(isQueryValid)\<close>
  source of the first \<open>combineLatest\<close>; the \<open>map(() => 1)\<close> branch merged into its
  second source; the \<open>switchMap\<close> of the error pipeline, which drops a delayed error
  it still holds and then emits \<open>undefined\<close> at once, or the BadInput error after
  \<open>delay(500)\<close>.
\<close>

definition searchInput :: "string \<Rightarrow> 'm MoviesStore \<Rightarrow> 'm MoviesStore" where
  "searchInput query s =
     (let s1 = (if searchAlive s \<and> isQueryValid query
                then search_emit (s\<lparr>searchQuery := Some query\<rparr>) else s);
          s2 = (if searchAlive s1 then search_emit (s1\<lparr>searchPage := 1\<rparr>) else s1);
          s3 = s2\<lparr>badInputPending := None\<rparr>
      in if length query = 0 \<or> isQueryValid query
         then s3\<lparr>error := None\<rparr>
         else s3\<lparr>badInputPending := Some (clock s3 + 500)\<rparr>)"

text \<open>The delayed BadInput error reaches the subscriber of the error pipeline.\<close>

definition badInput_elapsed :: "'m MoviesStore \<Rightarrow> 'm MoviesStore" where
  "badInput_elapsed s = s\<lparr>error := Some BAD_INPUT, badInputPending := None\<rparr>"

text \<open>
  Time passes. There are two timers: the debounced value and the delayed BadInput
  error. \<open>deliver_badInput\<close> fires the delayed error if it is due by \<open>target\<close>;
  \<open>commit_debounced\<close> emits the debounced value at its deadline if it is due by
  \<open>target\<close> (the commit drops a delayed error still pending and may start a new one).
\<close>

definition deliver_badInput :: "nat \<Rightarrow> 'm MoviesStore \<Rightarrow> 'm MoviesStore" where
  "deliver_badInput target s =
     (case badInputPending s of
        None \<Rightarrow> s
      | Some b \<Rightarrow> if b \<le> target then badInput_elapsed (s\<lparr>clock := b\<rparr>) else s)"

definition commit_debounced :: "nat \<Rightarrow> 'm MoviesStore \<Rightarrow> 'm MoviesStore" where
  "commit_debounced target s =
     (case debouncePending s of
        None \<Rightarrow> s
      | Some (d, query) \<Rightarrow>
          if d \<le> target then searchInput query (s\<lparr>clock := d, debouncePending := None\<rparr>)
          else s)"

text \<open>Whether the delayed error, if any, is due no later than the debounced value.\<close>

definition badInput_first :: "'m MoviesStore \<Rightarrow> bool" where
  "badInput_first s =
     (case badInputPending s of
        None \<Rightarrow> True
      | Some b \<Rightarrow> (case debouncePending s of None \<Rightarrow> True | Some (d, _) \<Rightarrow> b \<le> d))"

text \<open>
  \<open>t\<close> milliseconds elapse and the timers that fall due fire in the order of their
  deadlines: a delayed error that is due no later than the debounced value; then the
  debounced value; then a delayed error that is pending after the commit. A commit
  starts no new debounce interval, so nothing else can fall due.
\<close>

definition elapse :: "nat \<Rightarrow> 'm MoviesStore \<Rightarrow> 'm MoviesStore" where
  "elapse t s =
     (let target = clock s + t;
          s1 = (if badInput_first s then deliver_badInput target s else s);
          s2 = commit_debounced target s1;
          s3 = deliver_badInput target s2
      in s3\<lparr>clock := target\<rparr>)"

subsection \<open>Events and runs\<close>

datatype 'm event =
    SearchForString string
  | SelectPage int
  | SetCurrentPage int
  | LoadMore
  | Elapse nat
  | SearchResponse nat "'m response"
  | MoreResponse nat "'m response"

fun step :: "'m MoviesStore \<Rightarrow> 'm event \<Rightarrow> 'm MoviesStore" where
  "step s (SearchForString val) = searchForString val s"
| "step s (SelectPage p) = selectPage p s"
| "step s (SetCurrentPage p) = setCurrentPage p s"
| "step s LoadMore = loadMore s"
| "step s (Elapse t) = elapse t s"
| "step s (SearchResponse i r) = searchResponse i r s"
| "step s (MoreResponse i r) = moreResponse i r s"

definition run :: "'m event list \<Rightarrow> 'm MoviesStore" where
  "run es = foldl step MoviesStore_init es"

section \<open>Properties of the getters\<close>

subsection \<open>Numbers\<close>

lemma to_double_exact: "\<bar>n\<bar> \<le> 2 ^ 53 \<Longrightarrow> to_double n = n"
  by (simp add: to_double_def)

subsection \<open>Insertion-ordered sets\<close>

lemma new_Set_Nil: "new_Set [] = []"
  by (simp add: new_Set_def)

lemma new_Set_snoc: "new_Set (xs @ [x]) = set_add (new_Set xs) x"
  by (simp add: new_Set_def)

text \<open>A \<open>Set\<close> keeps the first occurrence of every element, in the order of insertion.\<close>

lemma new_Set_first_occurrences: "new_Set xs = rev (remdups (rev xs))"
  by (induction xs rule: rev_induct)
    (auto simp: new_Set_snoc new_Set_Nil set_add_def)

lemma set_new_Set: "set (new_Set xs) = set xs"
  by (simp add: new_Set_first_occurrences)

lemma distinct_new_Set: "distinct (new_Set xs)"
  by (simp add: new_Set_first_occurrences)

lemma new_Set_filter: "filter P (new_Set xs) = new_Set (filter P xs)"
  by (induction xs rule: rev_induct)
    (auto simp: new_Set_snoc new_Set_Nil set_add_def set_new_Set)

lemma new_Set_map_Num: "new_Set (map Num xs) = map Num (new_Set xs)"
  by (induction xs rule: rev_induct)
    (auto simp: new_Set_snoc new_Set_Nil set_add_def set_new_Set)

lemma new_Set_append:
  "new_Set (xs @ ys) = new_Set xs @ filter (\<lambda>y. y \<notin> set xs) (new_Set ys)"
proof (induction ys rule: rev_induct)
  case Nil
  then show ?case by (simp add: new_Set_Nil)
next
  case (snoc y ys)
  have "new_Set (xs @ ys @ [y]) = set_add (new_Set (xs @ ys)) y"
    using new_Set_snoc [of "xs @ ys" y] by simp
  then show ?case
    using snoc by (auto simp: new_Set_snoc set_add_def set_new_Set)
qed

lemma new_Set_distinct: "distinct xs \<Longrightarrow> new_Set xs = xs"
  by (induction xs rule: rev_induct)
    (auto simp: new_Set_snoc new_Set_Nil set_add_def set_new_Set)

lemma range_filter_Num:
  "filter (\<lambda>p. js_gt p 0 \<and> js_le p T) (map Num xs) = map Num (filter (\<lambda>n. 1 \<le> n \<and> n \<le> T) xs)"
  by (induction xs) auto

lemma sorted_new_Set_append:
  fixes xs ys :: "int list"
  assumes "sorted (new_Set xs)" and "sorted (new_Set ys)"
    and "\<And>x y. x \<in> set xs \<Longrightarrow> y \<in> set ys \<Longrightarrow> y \<notin> set xs \<Longrightarrow> x \<le> y"
  shows "sorted (new_Set (xs @ ys))"
  using assms by (auto simp: new_Set_append sorted_append set_new_Set sorted_wrt_filter)

subsection \<open>The page strip\<close>

lemma exact_pages_bounds:
  assumes "exact_pages rs" and "rs \<noteq> []"
  shows "\<bar>hd (currentPages rs)\<bar> + 2 \<le> 2 ^ 53" and "\<bar>last (currentPages rs)\<bar> + 2 \<le> 2 ^ 53"
    and "\<bar>totalPages_of rs\<bar> + 2 \<le> 2 ^ 53"
proof -
  have ne: "currentPages rs \<noteq> []" using assms(2) by (simp add: currentPages_def)
  have all: "\<And>p. p \<in> set (currentPages rs) \<Longrightarrow> \<bar>p\<bar> + 2 \<le> 2 ^ 53"
    using assms(1) by (simp add: exact_pages_def list_all_iff)
  show "\<bar>hd (currentPages rs)\<bar> + 2 \<le> 2 ^ 53" using all ne by simp
  show "\<bar>last (currentPages rs)\<bar> + 2 \<le> 2 ^ 53" using all ne by simp
  show "\<bar>totalPages_of rs\<bar> + 2 \<le> 2 ^ 53" using assms(1) by (simp add: exact_pages_def)
qed

lemma candidatePages_exact:
  assumes "exact_pages rs" and "rs \<noteq> []"
  shows "candidatePages rs =
           map Num ([1, 2, hd (currentPages rs) - 2, hd (currentPages rs) - 1]
                    @ currentPages rs
                    @ [last (currentPages rs) + 1, last (currentPages rs) + 2,
                       totalPages_of rs - 1, totalPages_of rs])"
proof -
  have ne: "currentPages rs \<noteq> []" using assms(2) by (simp add: currentPages_def)
  note b = exact_pages_bounds [OF assms]
  have f: "firstOfCurrentPages rs = Some (hd (currentPages rs))"
    using ne by (simp add: firstOfCurrentPages_def split: list.splits)
  have l: "lastOfCurrentPages rs = Some (last (currentPages rs))"
    using ne by (simp add: lastOfCurrentPages_def)
  have "to_double (hd (currentPages rs) + - 2) = hd (currentPages rs) - 2"
    "to_double (hd (currentPages rs) + - 1) = hd (currentPages rs) - 1"
    "to_double (last (currentPages rs) + 1) = last (currentPages rs) + 1"
    "to_double (last (currentPages rs) + 2) = last (currentPages rs) + 2"
    "to_double (totalPages_of rs - 1) = totalPages_of rs - 1"
    using b by (simp_all add: to_double_exact)
  then show ?thesis
    by (simp add: candidatePages_def f l)
qed

lemma pagesToPickFrom_order:
  assumes "exact_pages rs" and "rs \<noteq> []"
  shows "pagesToPickFrom rs =
           map Num (rev (remdups (rev (filter (\<lambda>n. 1 \<le> n \<and> n \<le> totalPages_of rs)
             ([1, 2, hd (currentPages rs) - 2, hd (currentPages rs) - 1]
              @ currentPages rs
              @ [last (currentPages rs) + 1, last (currentPages rs) + 2,
                 totalPages_of rs - 1, totalPages_of rs])))))"
proof -
  have "pagesToPickFrom rs =
          map Num (new_Set (filter (\<lambda>n. 1 \<le> n \<and> n \<le> totalPages_of rs)
             ([1, 2, hd (currentPages rs) - 2, hd (currentPages rs) - 1]
              @ currentPages rs
              @ [last (currentPages rs) + 1, last (currentPages rs) + 2,
                 totalPages_of rs - 1, totalPages_of rs])))"
    unfolding pagesToPickFrom_def candidatePages_exact [OF assms]
    by (simp only: new_Set_map_Num range_filter_Num new_Set_filter)
  then show ?thesis by (simp only: new_Set_first_occurrences)
qed

lemma pagesToPickFrom_Nil: "pagesToPickFrom [] = []"
  by (simp add: pagesToPickFrom_def candidatePages_def totalPages_of_def new_Set_def
      set_add_def firstOfCurrentPages_def lastOfCurrentPages_def currentPages_def to_double_def)

lemma pagesToPickFrom_spec_Nil: "pagesToPickFrom_spec [] = []"
  by (simp add: pagesToPickFrom_spec_def spec_candidates_def totalPages_of_def currentPages_def)

lemma distinct_pagesToPickFrom: "distinct (pagesToPickFrom rs)"
  by (simp add: pagesToPickFrom_def distinct_new_Set)

text \<open>In a window in ascending order the first page is the lowest and the last the highest.\<close>

lemma hd_Min: "sorted xs \<Longrightarrow> xs \<noteq> [] \<Longrightarrow> Min (set xs) = hd (xs :: int list)"
  by (cases xs) (auto intro!: Min_eqI)

lemma last_Max: "sorted xs \<Longrightarrow> xs \<noteq> [] \<Longrightarrow> Max (set xs) = last (xs :: int list)"
  by (induction xs) (auto simp: max_def intro!: Max_eqI)

lemma spec_candidates_sorted:
  assumes "sorted (currentPages rs)" and "rs \<noteq> []"
  shows "spec_candidates rs =
           [1, 2, hd (currentPages rs) - 2, hd (currentPages rs) - 1]
           @ currentPages rs
           @ [last (currentPages rs) + 1, last (currentPages rs) + 2,
              totalPages_of rs - 1, totalPages_of rs]"
proof -
  have ne: "currentPages rs \<noteq> []" using assms(2) by (simp add: currentPages_def)
  show ?thesis
    using ne hd_Min [OF assms(1) ne] last_Max [OF assms(1) ne]
    by (simp add: spec_candidates_def)
qed

lemma set_pagesToPickFrom_sorted:
  assumes "exact_pages rs" and "sorted (currentPages rs)"
  shows "set (pagesToPickFrom rs) = Num ` set (pagesToPickFrom_spec rs)"
proof (cases "rs = []")
  case True
  then show ?thesis by (simp add: pagesToPickFrom_Nil pagesToPickFrom_spec_Nil)
next
  case False
  show ?thesis
    by (simp add: pagesToPickFrom_order [OF assms(1) False] pagesToPickFrom_spec_def
        spec_candidates_sorted [OF assms(2) False])
qed

lemma upto_two: "[i..i + 1] = [i, i + 1]"
proof -
  have "[i..i + 1] = i # [i + 1..i + 1]" by (rule upto_rec1) simp
  then show ?thesis by simp
qed

lemma consecutive_candidates:
  assumes "currentPages rs = [lo..hi]" and "lo \<le> hi"
  shows "spec_candidates rs =
           [1, 2] @ [lo - 2..hi + 2] @ [totalPages_of rs - 1, totalPages_of rs]"
proof -
  have ne: "rs \<noteq> []" using assms by (auto simp: currentPages_def)
  have s: "sorted (currentPages rs)" using assms(1) by simp
  have h: "hd [lo..hi] = lo"
    using assms(2) by (simp add: upto_rec1 [of lo hi])
  have l: "last [lo..hi] = hi"
    using assms(2) by (simp add: upto_rec2 [of lo hi])
  have "[lo - 2..hi + 2] = [lo - 2, lo - 1] @ [lo..hi] @ [hi + 1, hi + 2]"
  proof -
    have "[lo - 2..hi + 2] = [lo - 2..lo - 1] @ [lo..hi + 2]"
      using assms(2) upto_split2 [of "lo - 2" "lo - 1" "hi + 2"] by simp
    moreover have "[lo - 2..lo - 1] = [lo - 2, lo - 1]"
      using upto_two [of "lo - 2"] by simp
    moreover have "[lo..hi + 2] = [lo..hi] @ [hi + 1..hi + 2]"
      using assms(2) upto_split2 [of lo hi "hi + 2"] by simp
    moreover have "[hi + 1..hi + 2] = [hi + 1, hi + 2]"
      using upto_two [of "hi + 1"] by (simp add: add.commute)
    ultimately show ?thesis by simp
  qed
  then show ?thesis
    using assms(1) by (simp add: spec_candidates_sorted [OF s ne] h l)
qed

lemma sorted_consecutive:
  assumes "currentPages rs = [lo..hi]" and "lo \<le> hi" and "hi \<le> totalPages_of rs"
  shows "sorted (new_Set (filter (\<lambda>n. 1 \<le> n \<and> n \<le> totalPages_of rs) (spec_candidates rs)))"
proof -
  let ?T = "totalPages_of rs"
  let ?F = "filter (\<lambda>n. 1 \<le> n \<and> n \<le> ?T)"
  have A: "sorted (new_Set (?F [1, 2]))"
    by (simp add: new_Set_distinct)
  have B: "sorted (new_Set (?F [lo - 2..hi + 2]))"
    by (simp add: new_Set_distinct sorted_wrt_filter)
  have C: "sorted (new_Set (?F [?T - 1, ?T]))"
    by (simp add: new_Set_distinct)
  have BC: "sorted (new_Set (?F [lo - 2..hi + 2] @ ?F [?T - 1, ?T]))"
    using B C
  proof (rule sorted_new_Set_append)
    fix x y
    assume "x \<in> set (?F [lo - 2..hi + 2])" "y \<in> set (?F [?T - 1, ?T])"
      "y \<notin> set (?F [lo - 2..hi + 2])"
    then show "x \<le> y"
      using assms(2,3) by (auto split: if_splits)
  qed
  have "sorted (new_Set (?F [1, 2] @ (?F [lo - 2..hi + 2] @ ?F [?T - 1, ?T])))"
    using A BC
  proof (rule sorted_new_Set_append)
    fix x y
    assume "x \<in> set (?F [1, 2])" "y \<in> set (?F [lo - 2..hi + 2] @ ?F [?T - 1, ?T])"
      "y \<notin> set (?F [1, 2])"
    then show "x \<le> y"
      by (auto split: if_splits)
  qed
  then show ?thesis
    by (simp only: consecutive_candidates [OF assms(1,2)] filter_append)
qed

lemma pagesToPickFrom_consecutive:
  assumes "exact_pages rs"
    and "currentPages rs = [lo..hi]" and "lo \<le> hi" and "hi \<le> totalPages_of rs"
  shows "pagesToPickFrom rs = map Num (pagesToPickFrom_spec rs)"
proof -
  from assms(2,3) have ne: "rs \<noteq> []" by (auto simp: currentPages_def)
  have so: "sorted (currentPages rs)" using assms(2) by simp
  let ?xs = "new_Set (filter (\<lambda>n. 1 \<le> n \<and> n \<le> totalPages_of rs) (spec_candidates rs))"
  have s: "sorted ?xs" using assms(2-4) by (rule sorted_consecutive)
  have d: "distinct ?xs" by (rule distinct_new_Set)
  have e: "set ?xs = set (pagesToPickFrom_spec rs)"
    by (auto simp: set_new_Set pagesToPickFrom_spec_def)
  have "?xs = pagesToPickFrom_spec rs"
    using s d e by (simp add: pagesToPickFrom_spec_def sorted_distinct_set_unique)
  then show ?thesis
    by (simp add: pagesToPickFrom_order [OF assms(1) ne] spec_candidates_sorted [OF so ne]
        new_Set_first_occurrences)
qed

lemmas getter_defs =
  pagesToPickFrom_def candidatePages_def totalPages_of_def new_Set_def set_add_def
  firstOfCurrentPages_def lastOfCurrentPages_def currentPages_def to_double_def
  bit_length.simps Let_def pagesToPickFrom_spec_def spec_candidates_def exact_pages_def

text \<open>
  C1, as the code has it. Let the page numbers of the window and \<open>totalPages\<close> be
  integers on which the arithmetic of the getter is exact (magnitude at most
  \<open>2^53 - 2\<close>). For a non-empty window \<open>pagesToPickFrom\<close> is the list
  \<open>1, 2, first-2, first-1, ...currentPages, last+1, last+2, totalPages-1, totalPages\<close>,
  where \<open>first\<close> and \<open>last\<close> are the first and the last page of the window as it is
  stored, restricted to \<open>[1, totalPages]\<close>, with every repeated occurrence of a number
  dropped: the numbers stay in this order of insertion and no step sorts them. The result
  never holds a number twice. When the window is in ascending order, \<open>first\<close> and
  \<open>last\<close> are the lowest and the highest page and the result has exactly the elements of
  the set of the specification. When the window holds the consecutive pages
  \<open>lo, ..., hi\<close> with \<open>hi \<le> totalPages\<close>, the result is moreover ascending: it is
  the sorted list of the specification. For \<open>totalPages = 100\<close> and the window
  \<open>[50]\<close> it is \<open>[1, 2, 48, 49, 50, 51, 52, 99, 100]\<close>.
\<close>

theorem pagesToPickFrom_insertion_order:
  "(exact_pages rs \<and> rs \<noteq> []
      \<longrightarrow> pagesToPickFrom rs =
            map Num (rev (remdups (rev (filter (\<lambda>n. 1 \<le> n \<and> n \<le> totalPages_of rs)
              ([1, 2, hd (currentPages rs) - 2, hd (currentPages rs) - 1]
               @ currentPages rs
               @ [last (currentPages rs) + 1, last (currentPages rs) + 2,
                  totalPages_of rs - 1, totalPages_of rs]))))))
   \<and> distinct (pagesToPickFrom rs)
   \<and> (exact_pages rs \<and> sorted (currentPages rs)
      \<longrightarrow> set (pagesToPickFrom rs) = Num ` set (pagesToPickFrom_spec rs))
   \<and> (exact_pages rs \<and> currentPages rs = [lo..hi] \<and> lo \<le> hi \<and> hi \<le> totalPages_of rs
      \<longrightarrow> pagesToPickFrom rs = map Num (pagesToPickFrom_spec rs))
   \<and> pagesToPickFrom [\<lparr>page = 50, totalPages = 100, movies = ms\<rparr>]
        = map Num [1, 2, 48, 49, 50, 51, 52, 99, 100]"
proof -
  have "pagesToPickFrom [\<lparr>page = 50, totalPages = 100, movies = ms\<rparr>]
          = map Num [1, 2, 48, 49, 50, 51, 52, 99, 100]"
    by (simp add: getter_defs)
  then show ?thesis
    using pagesToPickFrom_order [of rs] distinct_pagesToPickFrom [of rs]
      set_pagesToPickFrom_sorted [of rs] pagesToPickFrom_consecutive [of rs lo hi]
    by blast
qed

text \<open>
  The theorem at the window \<open>[3, 4]\<close> of 5 pages, which is consecutive, and at the
  window \<open>[9, 2]\<close> of 20 pages, which is not in ascending order.
\<close>

theorem pagesToPickFrom_insertion_order_witness:
  "exact_pages [\<lparr>page = 3, totalPages = 5, movies = [''Alien'']\<rparr>,
                \<lparr>page = 4, totalPages = 5, movies = [''Brazil'']\<rparr>]
   \<and> currentPages [\<lparr>page = 3, totalPages = 5, movies = [''Alien'']\<rparr>,
                   \<lparr>page = 4, totalPages = 5, movies = [''Brazil'']\<rparr>] = [3..4]
   \<and> pagesToPickFrom [\<lparr>page = 3, totalPages = 5, movies = [''Alien'']\<rparr>,
                      \<lparr>page = 4, totalPages = 5, movies = [''Brazil'']\<rparr>]
       = map Num (pagesToPickFrom_spec
           [\<lparr>page = 3, totalPages = 5, movies = [''Alien'']\<rparr>,
            \<lparr>page = 4, totalPages = 5, movies = [''Brazil'']\<rparr>])
   \<and> pagesToPickFrom_spec [\<lparr>page = 3, totalPages = 5, movies = [''Alien'']\<rparr>,
                           \<lparr>page = 4, totalPages = 5, movies = [''Brazil'']\<rparr>]
       = [1, 2, 3, 4, 5]
   \<and> exact_pages [\<lparr>page = 9, totalPages = 20, movies = [''Alien'']\<rparr>,
                  \<lparr>page = 2, totalPages = 20, movies = [''Brazil'']\<rparr>]
   \<and> pagesToPickFrom [\<lparr>page = 9, totalPages = 20, movies = [''Alien'']\<rparr>,
                      \<lparr>page = 2, totalPages = 20, movies = [''Brazil'']\<rparr>]
       = map Num [1, 2, 7, 8, 9, 3, 4, 19, 20]"
  using pagesToPickFrom_insertion_order
    [of "[\<lparr>page = 3, totalPages = 5, movies = [''Alien'']\<rparr>,
          \<lparr>page = 4, totalPages = 5, movies = [''Brazil'']\<rparr>]" 3 4 "[''Alien'']"]
    pagesToPickFrom_insertion_order
    [of "[\<lparr>page = 9, totalPages = 20, movies = [''Alien'']\<rparr>,
          \<lparr>page = 2, totalPages = 20, movies = [''Brazil'']\<rparr>]" 9 9 "[''Alien'']"]
  by (simp add: currentPages_def totalPages_of_def pagesToPickFrom_spec_def
      spec_candidates_def exact_pages_def)

text \<open>
  C1 as stated fails in three ways. The result is not sorted for every window:
  \<open>[2, 9]\<close> with \<open>totalPages = 9\<close> gives \<open>[1, 2, 9, 8]\<close>, since the candidate
  \<open>totalPages - 1 = 8\<close> is inserted after the page 9 of the window. The boundary
  candidates come from the first and the last stored page, not from the lowest and the
  highest: \<open>[9, 2]\<close> with \<open>totalPages = 20\<close> gives \<open>7, 8\<close> and \<open>3, 4\<close> where the
  specification has \<open>0, 1\<close> and \<open>10, 11\<close>. And from \<open>2^53\<close> on the sums are
  rounded: page \<open>2^53\<close> of \<open>2^53 + 2\<close> gives six numbers, \<open>2^53 + 1\<close> is missing.
\<close>

theorem pagesToPickFrom_unsorted_counterexample:
  "pagesToPickFrom [\<lparr>page = 2, totalPages = 9, movies = [''Alien'']\<rparr>,
                    \<lparr>page = 9, totalPages = 9, movies = [''Brazil'']\<rparr>]
     = [Num 1, Num 2, Num 9, Num 8]
   \<and> pagesToPickFrom [\<lparr>page = 2, totalPages = 9, movies = [''Alien'']\<rparr>,
                      \<lparr>page = 9, totalPages = 9, movies = [''Brazil'']\<rparr>]
     \<noteq> map Num (pagesToPickFrom_spec
           [\<lparr>page = 2, totalPages = 9, movies = [''Alien'']\<rparr>,
            \<lparr>page = 9, totalPages = 9, movies = [''Brazil'']\<rparr>])
   \<and> pagesToPickFrom [\<lparr>page = 9, totalPages = 20, movies = [''Alien'']\<rparr>,
                      \<lparr>page = 2, totalPages = 20, movies = [''Brazil'']\<rparr>]
     = map Num [1, 2, 7, 8, 9, 3, 4, 19, 20]
   \<and> pagesToPickFrom_spec [\<lparr>page = 9, totalPages = 20, movies = [''Alien'']\<rparr>,
                           \<lparr>page = 2, totalPages = 20, movies = [''Brazil'']\<rparr>]
     = [1, 2, 9, 10, 11, 19, 20]
   \<and> pagesToPickFrom
        [\<lparr>page = 9007199254740992, totalPages = 9007199254740994, movies = [''Alien'']\<rparr>]
     = map Num [1, 2, 9007199254740990, 9007199254740991, 9007199254740992,
                9007199254740994]
   \<and> pagesToPickFrom_spec
        [\<lparr>page = 9007199254740992, totalPages = 9007199254740994, movies = [''Alien'']\<rparr>]
     = [1, 2, 9007199254740990, 9007199254740991, 9007199254740992, 9007199254740993,
        9007199254740994]"
  by (simp add: getter_defs)

text \<open>
  C10. For the empty window \<open>pagesToPickFrom\<close> is the empty sequence: the
  boundary-derived candidates are \<open>NaN\<close>, \<open>totalPages\<close> is 0, and the range filter
  removes every candidate, the constants 1 and 2 included.
\<close>

theorem pagesToPickFrom_empty_window:
  "totalPages_of ([] :: 'm MoviesPage list) = 0
   \<and> candidatePages ([] :: 'm MoviesPage list)
       = [Num 1, Num 2, NaN, NaN, NaN, NaN, Num (- 1), Num 0]
   \<and> pagesToPickFrom ([] :: 'm MoviesPage list) = []"
  by (simp add: getter_defs)

section \<open>Properties of the pipelines\<close>

lemmas store_defs =
  run_def MoviesStore_init_def searchForString_def elapse_def badInput_first_def
  deliver_badInput_def commit_debounced_def searchInput_def badInput_elapsed_def
  isQueryValid_def trim_def is_whitespace_def MIN_CHARACTERS_FOR_SEARCH_def
  search_emit_def more_emit_def setCurrentPage_def selectPage_def loadMore_def
  searchResponse_def moreResponse_def search_next_def search_error_def more_next_def
  more_error_def notify_error_def Let_def lastOfCurrentPages_def currentPages_def
  totalPages_of_def to_double_def

subsection \<open>Committed queries\<close>

lemma searchInput_frame:
  "moviesResponses (searchInput query s) = moviesResponses s"
  "noResultsFound (searchInput query s) = noResultsFound s"
  "clock (searchInput query s) = clock s"
  "debouncePending (searchInput query s) = debouncePending s"
  "searchAlive (searchInput query s) = searchAlive s"
  "moreAlive (searchInput query s) = moreAlive s"
  "moreQuery (searchInput query s) = moreQuery s"
  "moreTriggered (searchInput query s) = moreTriggered s"
  "moreInFlight (searchInput query s) = moreInFlight s"
  "loggedErrors (searchInput query s) = loggedErrors s"
  by (simp_all add: searchInput_def search_emit_def Let_def split: option.splits)

lemma searchInput_valid:
  assumes "isQueryValid query" and "searchAlive s"
  shows "searchCalls (searchInput query s) = searchCalls s @ [(query, searchPage s), (query, 1)]"
    and "searchInFlight (searchInput query s) = Some (length (searchCalls s) + 1)"
    and "badInputPending (searchInput query s) = None"
    and "error (searchInput query s) = None"
  using assms by (simp_all add: searchInput_def search_emit_def Let_def)

lemma searchInput_empty:
  "error (searchInput [] s) = None"
  "badInputPending (searchInput [] s) = None"
  by (simp_all add: searchInput_def Let_def)

lemma searchInput_invalid:
  assumes "\<not> isQueryValid query" and "searchAlive s" and "searchQuery s = Some old"
  shows "searchCalls (searchInput query s) = searchCalls s @ [(old, 1)]"
    and "searchInFlight (searchInput query s) = Some (length (searchCalls s))"
  using assms by (simp_all add: searchInput_def search_emit_def Let_def)

lemma searchInput_short:
  assumes "\<not> isQueryValid query" and "query \<noteq> []"
  shows "badInputPending (searchInput query s) = Some (clock s + 500)"
    and "error (searchInput query s) = error s"
  using assms by (simp_all add: searchInput_def search_emit_def Let_def split: option.splits)

subsection \<open>Timers\<close>

lemma deliver_badInput_frame:
  "moviesResponses (deliver_badInput target s) = moviesResponses s"
  "noResultsFound (deliver_badInput target s) = noResultsFound s"
  "debouncePending (deliver_badInput target s) = debouncePending s"
  "searchAlive (deliver_badInput target s) = searchAlive s"
  "searchQuery (deliver_badInput target s) = searchQuery s"
  "searchPage (deliver_badInput target s) = searchPage s"
  "searchInFlight (deliver_badInput target s) = searchInFlight s"
  "searchCalls (deliver_badInput target s) = searchCalls s"
  "moreAlive (deliver_badInput target s) = moreAlive s"
  "moreQuery (deliver_badInput target s) = moreQuery s"
  "moreTriggered (deliver_badInput target s) = moreTriggered s"
  "moreInFlight (deliver_badInput target s) = moreInFlight s"
  "loggedErrors (deliver_badInput target s) = loggedErrors s"
  by (simp_all add: deliver_badInput_def badInput_elapsed_def split: option.splits)

lemma deliver_badInput_none:
  "badInputPending s = None \<Longrightarrow> deliver_badInput target s = s"
  by (simp add: deliver_badInput_def)

lemma commit_debounced_due:
  "debouncePending s = Some (d, query) \<Longrightarrow> d \<le> target \<Longrightarrow>
   commit_debounced target s = searchInput query (s\<lparr>clock := d, debouncePending := None\<rparr>)"
  by (simp add: commit_debounced_def)

lemma commit_debounced_not_due:
  "debouncePending s = Some (d, query) \<Longrightarrow> target < d \<Longrightarrow> commit_debounced target s = s"
  by (simp add: commit_debounced_def)

lemma commit_debounced_frame:
  "moviesResponses (commit_debounced target s) = moviesResponses s"
  "noResultsFound (commit_debounced target s) = noResultsFound s"
  "searchAlive (commit_debounced target s) = searchAlive s"
  "moreAlive (commit_debounced target s) = moreAlive s"
  "moreQuery (commit_debounced target s) = moreQuery s"
  "moreTriggered (commit_debounced target s) = moreTriggered s"
  "moreInFlight (commit_debounced target s) = moreInFlight s"
  "loggedErrors (commit_debounced target s) = loggedErrors s"
  by (simp_all add: commit_debounced_def searchInput_frame split: option.splits prod.splits)

lemma elapse_frame:
  "moviesResponses (elapse t s) = moviesResponses s"
  "noResultsFound (elapse t s) = noResultsFound s"
  "clock (elapse t s) = clock s + t"
  "searchAlive (elapse t s) = searchAlive s"
  "moreAlive (elapse t s) = moreAlive s"
  "moreQuery (elapse t s) = moreQuery s"
  "moreTriggered (elapse t s) = moreTriggered s"
  "moreInFlight (elapse t s) = moreInFlight s"
  "loggedErrors (elapse t s) = loggedErrors s"
  by (simp_all add: elapse_def Let_def deliver_badInput_frame commit_debounced_frame)

lemma elapse_not_due:
  assumes "debouncePending s = Some (d, query)" and "clock s + t < d"
  shows "searchCalls (elapse t s) = searchCalls s"
    and "searchInFlight (elapse t s) = searchInFlight s"
    and "searchPage (elapse t s) = searchPage s"
    and "debouncePending (elapse t s) = Some (d, query)"
proof -
  define s1 where "s1 = (if badInput_first s then deliver_badInput (clock s + t) s else s)"
  have s1: "debouncePending s1 = Some (d, query)" "searchCalls s1 = searchCalls s"
    "searchInFlight s1 = searchInFlight s" "searchPage s1 = searchPage s"
    using assms(1) by (simp_all add: s1_def deliver_badInput_frame)
  have e: "elapse t s = (deliver_badInput (clock s + t) s1)\<lparr>clock := clock s + t\<rparr>"
    using commit_debounced_not_due [OF s1(1) assms(2)]
    by (simp add: elapse_def Let_def s1_def)
  show "searchCalls (elapse t s) = searchCalls s"
    and "searchInFlight (elapse t s) = searchInFlight s"
    and "searchPage (elapse t s) = searchPage s"
    and "debouncePending (elapse t s) = Some (d, query)"
    by (simp_all add: e s1 deliver_badInput_frame)
qed

lemma elapse_commit_valid:
  assumes "debouncePending s = Some (d, query)" and "d \<le> clock s + t"
    and "isQueryValid query" and "searchAlive s"
  shows "searchCalls (elapse t s) = searchCalls s @ [(query, searchPage s), (query, 1)]"
    and "searchInFlight (elapse t s) = Some (length (searchCalls s) + 1)"
    and "error (elapse t s) = None"
proof -
  define s1 where "s1 = (if badInput_first s then deliver_badInput (clock s + t) s else s)"
  have s1: "debouncePending s1 = Some (d, query)" "searchCalls s1 = searchCalls s"
    "searchAlive s1" "searchPage s1 = searchPage s"
    using assms(1,4) by (simp_all add: s1_def deliver_badInput_frame)
  define s2 where "s2 = searchInput query (s1\<lparr>clock := d, debouncePending := None\<rparr>)"
  have s2: "searchCalls s2 = searchCalls s @ [(query, searchPage s), (query, 1)]"
    "searchInFlight s2 = Some (length (searchCalls s) + 1)"
    "badInputPending s2 = None" "error s2 = None"
    using searchInput_valid [of query "s1\<lparr>clock := d, debouncePending := None\<rparr>"]
      assms(3) s1
    by (simp_all add: s2_def)
  have "commit_debounced (clock s + t) s1 = s2"
    using commit_debounced_due [OF s1(1) assms(2)] by (simp add: s2_def)
  then have e: "elapse t s = s2\<lparr>clock := clock s + t\<rparr>"
    using deliver_badInput_none [OF s2(3)] by (simp add: elapse_def Let_def s1_def)
  show "searchCalls (elapse t s) = searchCalls s @ [(query, searchPage s), (query, 1)]"
    and "searchInFlight (elapse t s) = Some (length (searchCalls s) + 1)"
    and "error (elapse t s) = None"
    by (simp_all add: e s2)
qed

lemma elapse_commit_empty:
  assumes "debouncePending s = Some (d, [])" and "d \<le> clock s + t"
  shows "error (elapse t s) = None" and "badInputPending (elapse t s) = None"
proof -
  define s1 where "s1 = (if badInput_first s then deliver_badInput (clock s + t) s else s)"
  have s1: "debouncePending s1 = Some (d, [])"
    using assms(1) by (simp add: s1_def deliver_badInput_frame)
  define s2 where "s2 = searchInput [] (s1\<lparr>clock := d, debouncePending := None\<rparr>)"
  have s2: "badInputPending s2 = None" "error s2 = None"
    by (simp_all add: s2_def searchInput_empty)
  have "commit_debounced (clock s + t) s1 = s2"
    using commit_debounced_due [OF s1 assms(2)] by (simp add: s2_def)
  then have e: "elapse t s = s2\<lparr>clock := clock s + t\<rparr>"
    using deliver_badInput_none [OF s2(1)] by (simp add: elapse_def Let_def s1_def)
  show "error (elapse t s) = None" and "badInputPending (elapse t s) = None"
    by (simp_all add: e s2)
qed

text \<open>
  A committed query that is not valid still resets the page source of the first
  \<open>combineLatest\<close>, which then emits with the last valid query; a short query that is
  not empty raises the BadInput error 500 ms after its commit.
\<close>

lemma elapse_commit_invalid:
  assumes "debouncePending s = Some (d, query)" and "d \<le> clock s + t"
    and "\<not> isQueryValid query" and "searchAlive s" and "searchQuery s = Some old"
  shows "searchCalls (elapse t s) = searchCalls s @ [(old, 1)]"
proof -
  define s1 where "s1 = (if badInput_first s then deliver_badInput (clock s + t) s else s)"
  have s1: "debouncePending s1 = Some (d, query)" "searchCalls s1 = searchCalls s"
    "searchAlive s1" "searchQuery s1 = Some old"
    using assms(1,4,5) by (simp_all add: s1_def deliver_badInput_frame)
  have "commit_debounced (clock s + t) s1
          = searchInput query (s1\<lparr>clock := d, debouncePending := None\<rparr>)"
    using commit_debounced_due [OF s1(1) assms(2)] .
  moreover have "searchCalls (searchInput query (s1\<lparr>clock := d, debouncePending := None\<rparr>))
          = searchCalls s @ [(old, 1)]"
    using searchInput_invalid(1) [of query "s1\<lparr>clock := d, debouncePending := None\<rparr>" old]
      assms(3) s1 by simp
  ultimately show ?thesis
    by (simp add: elapse_def Let_def s1_def deliver_badInput_frame)
qed

lemma elapse_commit_short:
  assumes "debouncePending s = Some (d, query)" and "d + 500 \<le> clock s + t"
    and "\<not> isQueryValid query" and "query \<noteq> []"
  shows "error (elapse t s) = Some BAD_INPUT"
proof -
  define s1 where "s1 = (if badInput_first s then deliver_badInput (clock s + t) s else s)"
  have s1: "debouncePending s1 = Some (d, query)"
    using assms(1) by (simp add: s1_def deliver_badInput_frame)
  define s2 where "s2 = searchInput query (s1\<lparr>clock := d, debouncePending := None\<rparr>)"
  have d: "d \<le> clock s + t" using assms(2) by simp
  have c: "commit_debounced (clock s + t) s1 = s2"
    using commit_debounced_due [OF s1 d] by (simp add: s2_def)
  have "badInputPending s2 = Some (d + 500)"
    using searchInput_short(1) [OF assms(3,4), of "s1\<lparr>clock := d, debouncePending := None\<rparr>"]
    by (simp add: s2_def)
  then have "error (deliver_badInput (clock s + t) s2) = Some BAD_INPUT"
    using assms(2) by (simp add: deliver_badInput_def badInput_elapsed_def)
  then show ?thesis
    using c by (simp add: elapse_def Let_def s1_def)
qed

subsection \<open>Query input\<close>

lemma searchForString_frame:
  "debouncePending (searchForString val s) = Some (clock s + 500, val)"
  "clock (searchForString val s) = clock s"
  "searchAlive (searchForString val s) = searchAlive s"
  "searchPage (searchForString val s) = searchPage s"
  "searchInFlight (searchForString val s) = searchInFlight s"
  "moviesResponses (searchForString val s) = moviesResponses s"
  "moreTriggered (searchForString val s) = moreTriggered s"
  by (simp_all add: searchForString_def more_emit_def Let_def split: option.splits)

lemma searchForString_no_call:
  "\<not> moreTriggered s \<Longrightarrow> searchCalls (searchForString val s) = searchCalls s"
  by (simp add: searchForString_def more_emit_def Let_def split: option.splits)

text \<open>
  Once \<open>loadMore()\<close> has been invoked, every \<open>searchForString\<close> makes the second
  \<open>combineLatest\<close> emit: the raw text is sent to the remote client at once.
\<close>

lemma searchForString_after_loadMore:
  assumes "moreAlive s" and "moreTriggered s"
  shows "searchCalls (searchForString val s) =
           searchCalls s @
             [(val, to_double
                     ((case lastOfCurrentPages (moviesResponses s) of None \<Rightarrow> 1 | Some l \<Rightarrow> l)
                      + 1))]"
  using assms by (simp add: searchForString_def more_emit_def Let_def)

subsection \<open>Responses\<close>

lemma searchResponse_success:
  assumes "searchInFlight s = Some i"
  shows "moviesResponses (searchResponse i (Success d) s) = [d]"
    and "noResultsFound (searchResponse i (Success d) s) = (length (movies d) = 0)"
    and "error (searchResponse i (Success d) s) = error s"
  using assms by (simp_all add: searchResponse_def search_next_def)

lemma searchResponse_failure:
  assumes "searchInFlight s = Some i"
  shows "error (searchResponse i (Failure c) s) = Some SERVER_ERROR"
    and "loggedErrors (searchResponse i (Failure c) s) =
           loggedErrors s @ [(''Failed getting movies: '', c)]"
    and "moviesResponses (searchResponse i (Failure c) s) = moviesResponses s"
    and "unhandledErrors (searchResponse i (Failure c) s) = unhandledErrors s"
  using assms by (simp_all add: searchResponse_def search_error_def notify_error_def)

lemma moreResponse_success:
  assumes "moreInFlight s = Some i"
  shows "moviesResponses (moreResponse i (Success d) s) = moviesResponses s @ [d]"
    and "moreAlive (moreResponse i (Success d) s) = moreAlive s"
    and "moreQuery (moreResponse i (Success d) s) = moreQuery s"
  using assms by (simp_all add: moreResponse_def more_next_def)

lemma moreResponse_failure:
  assumes "moreInFlight s = Some i"
  shows "error (moreResponse i (Failure c) s) = Some SERVER_ERROR"
    and "loggedErrors (moreResponse i (Failure c) s) =
           loggedErrors s @ [(''Failed getting more movies for page: '', c)]"
    and "moviesResponses (moreResponse i (Failure c) s) = moviesResponses s"
    and "unhandledErrors (moreResponse i (Failure c) s) = unhandledErrors s"
  using assms by (simp_all add: moreResponse_def more_error_def notify_error_def)

lemma stale_response:
  "searchInFlight s \<noteq> Some i \<Longrightarrow> searchResponse i r s = s"
  "moreInFlight s \<noteq> Some i \<Longrightarrow> moreResponse i r s = s"
  by (simp_all add: searchResponse_def moreResponse_def)

text \<open>
  A failure ends the subscription of its pipeline: no later event makes that pipeline
  call the remote client again.
\<close>

lemma subscription_ends_on_failure:
  "searchInFlight s = Some i \<Longrightarrow> \<not> searchAlive (searchResponse i (Failure c) s)"
  "\<not> searchAlive s \<Longrightarrow> searchCalls (searchInput query s) = searchCalls s"
  "\<not> searchAlive s \<Longrightarrow> searchCalls (setCurrentPage p s) = searchCalls s"
  "moreInFlight s = Some i \<Longrightarrow> \<not> moreAlive (moreResponse i (Failure c) s)"
  "\<not> moreAlive s \<Longrightarrow> searchCalls (loadMore s) = searchCalls s"
  by (simp_all add: searchResponse_def search_error_def searchInput_def setCurrentPage_def
      moreResponse_def more_error_def loadMore_def notify_error_def Let_def)

subsection \<open>Load more\<close>

lemma loadMore_call:
  assumes "moreAlive s" and "moreQuery s = Some q"
  shows "searchCalls (loadMore s) =
           searchCalls s @
             [(q, to_double
                    ((case lastOfCurrentPages (moviesResponses s) of None \<Rightarrow> 1 | Some l \<Rightarrow> l)
                     + 1))]"
    and "moreInFlight (loadMore s) = Some (length (searchCalls s))"
    and "moviesResponses (loadMore s) = moviesResponses s"
  using assms by (simp_all add: loadMore_def more_emit_def)

subsection \<open>Page selection\<close>

lemma setCurrentPage_window:
  "moviesResponses (setCurrentPage p s) = moviesResponses s"
  by (simp add: setCurrentPage_def search_emit_def split: option.splits)

lemma setCurrentPage_call:
  "searchAlive s \<Longrightarrow> searchQuery s = Some q \<Longrightarrow>
     searchCalls (setCurrentPage p s) = searchCalls s @ [(q, p)]"
  by (simp add: setCurrentPage_def search_emit_def)

lemma selectPage_rejected:
  "p < 1 \<or> totalPages_of (moviesResponses s) < p \<Longrightarrow> selectPage p s = s"
  by (auto simp: selectPage_def)

section \<open>The claims about the pipelines\<close>

subsection \<open>Fresh search\<close>

text \<open>
  C2, as the code has it. When the debounce interval of a valid query (trimmed length
  at least 3) ends and the fresh-search subscription is alive, the remote client is
  called twice in a row: \<open>combineLatest\<close> emits once for the \<open>filter(isQueryValid)\<close>
  source, with the page selected before, and once for the \<open>map(() => 1)\<close> source. The
  second call, for \<open>(query, 1)\<close>, replaces the first in the \<open>switchMap\<close> and is the one
  in flight; the window is not touched until an answer arrives. On a successful answer
  to the call in flight the window becomes exactly the returned page, \<open>noResultsFound\<close>
  is true iff that page has no movies, and the error is left as it was.
\<close>

theorem valid_query_search:
  "(isQueryValid query \<and> searchAlive s \<and> debouncePending s = Some (d, query) \<and> d \<le> clock s + t
      \<longrightarrow> searchCalls (elapse t s) = searchCalls s @ [(query, searchPage s), (query, 1)]
        \<and> searchInFlight (elapse t s) = Some (length (searchCalls s) + 1)
        \<and> moviesResponses (elapse t s) = moviesResponses s)
   \<and> (searchInFlight s' = Some i
      \<longrightarrow> moviesResponses (searchResponse i (Success moviesData) s') = [moviesData]
        \<and> noResultsFound (searchResponse i (Success moviesData) s')
            = (length (movies moviesData) = 0)
        \<and> error (searchResponse i (Success moviesData) s') = error s')"
  using elapse_commit_valid [of s d query t] elapse_frame(1) [of t s]
    searchResponse_success [of s' i moviesData]
  by simp

text \<open>
  The theorem at the first query of a session: \<open>abc\<close> is typed into the fresh store
  and 500 ms pass; the call in flight is then answered with a page without movies.
\<close>

theorem valid_query_search_witness:
  "isQueryValid ''abc''
   \<and> searchCalls (elapse 500 (run [SearchForString ''abc''] :: string MoviesStore))
       = [(''abc'', 1), (''abc'', 1)]
   \<and> searchInFlight (elapse 500 (run [SearchForString ''abc''] :: string MoviesStore)) = Some 1
   \<and> searchInFlight (run [SearchForString ''abc'', Elapse 500] :: string MoviesStore) = Some 1
   \<and> moviesResponses
        (searchResponse 1 (Success \<lparr>page = 1, totalPages = 3, movies = []\<rparr>)
          (run [SearchForString ''abc'', Elapse 500] :: string MoviesStore))
       = [\<lparr>page = 1, totalPages = 3, movies = []\<rparr>]
   \<and> noResultsFound
        (searchResponse 1 (Success \<lparr>page = 1, totalPages = 3, movies = []\<rparr>)
          (run [SearchForString ''abc'', Elapse 500] :: string MoviesStore))"
  using valid_query_search
    [of "''abc''" "run [SearchForString ''abc''] :: string MoviesStore" 500 500
      "run [SearchForString ''abc'', Elapse 500] :: string MoviesStore" 1
      "\<lparr>page = 1, totalPages = 3, movies = []\<rparr>"]
  by (simp add: store_defs)

text \<open>
  C2 as stated fails: committing the valid query \<open>abc\<close> on the fresh store issues
  two remote calls, not exactly one.
\<close>

theorem valid_query_two_calls_counterexample:
  "searchCalls (run [SearchForString ''abc'', Elapse 500] :: string MoviesStore)
     = [(''abc'', 1), (''abc'', 1)]
   \<and> length (searchCalls (run [SearchForString ''abc'', Elapse 500] :: string MoviesStore)) \<noteq> 1"
  by (simp add: store_defs)

subsection \<open>Load more\<close>

text \<open>
  C3 at a concrete run. Page 1 of \<open>abc\<close> is in the window and \<open>abc\<close> is the query
  of the fresh-search pipeline. The text \<open>x\<close> is typed and \<open>loadMore()\<close> is invoked.
  The load-more pipeline combines the raw \<open>_searchString$\<close>, not the debounced valid
  query of the other pipeline, so its remote call is for \<open>(x, 2)\<close> and not for
  \<open>(abc, 2)\<close>. The answer is appended: the window then holds page 1 of \<open>abc\<close> and
  page 2 of \<open>x\<close>, and its movies are not those of two pages of one query.
\<close>

theorem loadMore_uses_raw_text:
  "searchQuery
     (run [SearchForString ''abc'', Elapse 500,
           SearchResponse 1 (Success \<lparr>page = 1, totalPages = 3, movies = [''abc1'']\<rparr>),
           SearchForString ''x'', LoadMore] :: string MoviesStore)
     = Some ''abc''
   \<and> searchCalls
       (run [SearchForString ''abc'', Elapse 500,
             SearchResponse 1 (Success \<lparr>page = 1, totalPages = 3, movies = [''abc1'']\<rparr>),
             SearchForString ''x'', LoadMore] :: string MoviesStore)
     = [(''abc'', 1), (''abc'', 1), (''x'', 2)]
   \<and> moviesResponses
       (run [SearchForString ''abc'', Elapse 500,
             SearchResponse 1 (Success \<lparr>page = 1, totalPages = 3, movies = [''abc1'']\<rparr>),
             SearchForString ''x'', LoadMore,
             MoreResponse 2 (Success \<lparr>page = 2, totalPages = 8, movies = [''x2'']\<rparr>)]
         :: string MoviesStore)
     = [\<lparr>page = 1, totalPages = 3, movies = [''abc1'']\<rparr>,
        \<lparr>page = 2, totalPages = 8, movies = [''x2'']\<rparr>]
   \<and> movies_of (moviesResponses
       (run [SearchForString ''abc'', Elapse 500,
             SearchResponse 1 (Success \<lparr>page = 1, totalPages = 3, movies = [''abc1'']\<rparr>),
             SearchForString ''x'', LoadMore,
             MoreResponse 2 (Success \<lparr>page = 2, totalPages = 8, movies = [''x2'']\<rparr>)]
         :: string MoviesStore))
     = [''abc1'', ''x2'']"
  by (simp add: store_defs movies_of_def)

subsection \<open>Latest query wins\<close>

text \<open>
  C4, as the code has it. Let two \<open>searchForString\<close> events be less than 500 ms
  apart, the later text be valid, the fresh-search subscription be alive and
  \<open>loadMore()\<close> not have been invoked before. Then no remote call has been issued when
  the later event has happened, and none is ever issued for the earlier text: when the
  debounce interval of the later event ends, the remote client is called for the later
  text only, twice in a row (with the page selected before, then with page 1), and the
  second call is the one in flight. An answer to a call that is not, or no longer, the
  one in flight leaves the whole store, and so the window, unchanged.
\<close>

theorem latest_query_wins:
  "(g < 500 \<and> isQueryValid later \<and> searchAlive s \<and> \<not> moreTriggered s
      \<longrightarrow> searchCalls (searchForString later (elapse g (searchForString earlier s)))
            = searchCalls s
        \<and> searchCalls (elapse 500 (searchForString later (elapse g (searchForString earlier s))))
            = searchCalls s @ [(later, searchPage s), (later, 1)]
        \<and> searchInFlight
            (elapse 500 (searchForString later (elapse g (searchForString earlier s))))
            = Some (length (searchCalls s) + 1))
   \<and> (searchInFlight s' \<noteq> Some i \<longrightarrow> searchResponse i r s' = s')
   \<and> (moreInFlight s' \<noteq> Some i \<longrightarrow> moreResponse i r s' = s')"
proof (intro conjI impI)
  assume a: "g < 500 \<and> isQueryValid later \<and> searchAlive s \<and> \<not> moreTriggered s"
  define sa where "sa = searchForString earlier s"
  define sb where "sb = elapse g sa"
  define sc where "sc = searchForString later sb"
  have sa: "debouncePending sa = Some (clock s + 500, earlier)" "clock sa = clock s"
    "searchCalls sa = searchCalls s" "searchAlive sa" "searchPage sa = searchPage s"
    "\<not> moreTriggered sa"
    using a by (simp_all add: sa_def searchForString_frame searchForString_no_call)
  have due: "clock sa + g < clock s + 500" using a sa by simp
  have sb: "searchCalls sb = searchCalls s" "clock sb = clock s + g" "searchAlive sb"
    "searchPage sb = searchPage s" "\<not> moreTriggered sb"
    using elapse_not_due [OF sa(1) due] sa by (simp_all add: sb_def elapse_frame)
  have sc: "debouncePending sc = Some (clock s + g + 500, later)" "clock sc = clock s + g"
    "searchCalls sc = searchCalls s" "searchAlive sc" "searchPage sc = searchPage s"
    using sb by (simp_all add: sc_def searchForString_frame searchForString_no_call)
  show "searchCalls (searchForString later (elapse g (searchForString earlier s)))
            = searchCalls s"
    using sc by (simp add: sc_def sb_def sa_def)
  have "clock s + g + 500 \<le> clock sc + 500" using sc by simp
  from elapse_commit_valid [OF sc(1) this] a sc
  show "searchCalls (elapse 500 (searchForString later (elapse g (searchForString earlier s))))
            = searchCalls s @ [(later, searchPage s), (later, 1)]"
    and "searchInFlight
            (elapse 500 (searchForString later (elapse g (searchForString earlier s))))
            = Some (length (searchCalls s) + 1)"
    by (simp_all add: sc_def sb_def sa_def)
next
  assume "searchInFlight s' \<noteq> Some i"
  then show "searchResponse i r s' = s'" by (rule stale_response)
next
  assume "moreInFlight s' \<noteq> Some i"
  then show "moreResponse i r s' = s'" by (rule stale_response)
qed

text \<open>
  The theorem at \<open>abc\<close> followed by \<open>abcdef\<close> 100 ms later on the fresh store, and at
  a late answer to call 0, which call 1 has superseded.
\<close>

theorem latest_query_wins_witness:
  "isQueryValid ''abcdef''
   \<and> searchCalls (searchForString ''abcdef''
        (elapse 100 (searchForString ''abc'' (MoviesStore_init :: string MoviesStore)))) = []
   \<and> searchCalls (elapse 500 (searchForString ''abcdef''
        (elapse 100 (searchForString ''abc'' (MoviesStore_init :: string MoviesStore)))))
       = [(''abcdef'', 1), (''abcdef'', 1)]
   \<and> searchInFlight (run [SearchForString ''abc'', Elapse 500] :: string MoviesStore) \<noteq> Some 0
   \<and> searchResponse 0 (Success \<lparr>page = 1, totalPages = 3, movies = [''abc1'']\<rparr>)
        (run [SearchForString ''abc'', Elapse 500] :: string MoviesStore)
       = run [SearchForString ''abc'', Elapse 500]
   \<and> moreResponse 0 (Success \<lparr>page = 1, totalPages = 3, movies = [''abc1'']\<rparr>)
        (run [SearchForString ''abc'', Elapse 500] :: string MoviesStore)
       = run [SearchForString ''abc'', Elapse 500]"
  using latest_query_wins
    [of 100 "''abcdef''" "MoviesStore_init :: string MoviesStore" "''abc''"
      "run [SearchForString ''abc'', Elapse 500] :: string MoviesStore" 0
      "Success \<lparr>page = 1, totalPages = 3, movies = [''abc1'']\<rparr>"]
  by (simp add: store_defs)

text \<open>
  C4 as stated fails: \<open>abc\<close> immediately followed by \<open>abcdef\<close> leads to two remote
  calls (both for \<open>abcdef\<close>), not to exactly one.
\<close>

theorem latest_query_two_calls_counterexample:
  "searchCalls (run [SearchForString ''abc'', SearchForString ''abcdef'', Elapse 500]
                 :: string MoviesStore)
     = [(''abcdef'', 1), (''abcdef'', 1)]
   \<and> length (searchCalls (run [SearchForString ''abc'', SearchForString ''abcdef'', Elapse 500]
                 :: string MoviesStore)) \<noteq> 1"
  by (simp add: store_defs)

subsection \<open>Page selection\<close>

text \<open>
  C5, as the code has it. The range guard is in the view binding: \<open>selectPage(n)\<close>
  with \<open>n < 1\<close> or \<open>n > totalPages\<close> does not reach the store, so no remote call is
  issued and nothing changes. The store's own \<open>setCurrentPage\<close> has no guard. It never
  changes the window (nor \<open>totalPages\<close>) itself, but once a valid query has been
  committed it calls the remote client for \<open>(query, n)\<close>, whatever \<open>n\<close> is.
\<close>

theorem selectPage_out_of_range:
  "(p < 1 \<or> totalPages_of (moviesResponses s) < p \<longrightarrow> selectPage p s = s)
   \<and> moviesResponses (setCurrentPage p s) = moviesResponses s
   \<and> totalPages_of (moviesResponses (setCurrentPage p s)) = totalPages_of (moviesResponses s)
   \<and> (searchAlive s \<and> searchQuery s = Some q
      \<longrightarrow> searchCalls (setCurrentPage p s) = searchCalls s @ [(q, p)])"
  using selectPage_rejected [of p s] setCurrentPage_window [of p s] setCurrentPage_call [of s q p]
  by simp

text \<open>
  The theorem at the pages 4 and 0 when the window holds page 1 of 3.
\<close>

theorem selectPage_out_of_range_witness:
  "totalPages_of (moviesResponses
      (run [SearchForString ''abc'', Elapse 500,
            SearchResponse 1 (Success \<lparr>page = 1, totalPages = 3, movies = [''abc1'']\<rparr>)]
        :: string MoviesStore)) < 4
   \<and> selectPage 4
        (run [SearchForString ''abc'', Elapse 500,
              SearchResponse 1 (Success \<lparr>page = 1, totalPages = 3, movies = [''abc1'']\<rparr>)]
          :: string MoviesStore)
       = run [SearchForString ''abc'', Elapse 500,
              SearchResponse 1 (Success \<lparr>page = 1, totalPages = 3, movies = [''abc1'']\<rparr>)]
   \<and> selectPage 0
        (run [SearchForString ''abc'', Elapse 500,
              SearchResponse 1 (Success \<lparr>page = 1, totalPages = 3, movies = [''abc1'']\<rparr>)]
          :: string MoviesStore)
       = run [SearchForString ''abc'', Elapse 500,
              SearchResponse 1 (Success \<lparr>page = 1, totalPages = 3, movies = [''abc1'']\<rparr>)]
   \<and> searchCalls (setCurrentPage 4
        (run [SearchForString ''abc'', Elapse 500,
              SearchResponse 1 (Success \<lparr>page = 1, totalPages = 3, movies = [''abc1'']\<rparr>)]
          :: string MoviesStore))
       = [(''abc'', 1), (''abc'', 1), (''abc'', 4)]"
  using selectPage_out_of_range
    [of 4 "run [SearchForString ''abc'', Elapse 500,
                SearchResponse 1 (Success \<lparr>page = 1, totalPages = 3, movies = [''abc1'']\<rparr>)]
            :: string MoviesStore" "''abc''"]
    selectPage_out_of_range
    [of 0 "run [SearchForString ''abc'', Elapse 500,
                SearchResponse 1 (Success \<lparr>page = 1, totalPages = 3, movies = [''abc1'']\<rparr>)]
            :: string MoviesStore" "''abc''"]
  by (simp add: store_defs)

text \<open>
  C5 as stated fails for the store itself: with \<open>totalPages = 3\<close>,
  \<open>setCurrentPage(0)\<close> issues the remote call \<open>(abc, 0)\<close>.
\<close>

theorem setCurrentPage_unguarded_counterexample:
  "totalPages_of (moviesResponses
      (run [SearchForString ''abc'', Elapse 500,
            SearchResponse 1 (Success \<lparr>page = 1, totalPages = 3, movies = [''abc1'']\<rparr>)]
        :: string MoviesStore)) = 3
   \<and> searchCalls
        (run [SearchForString ''abc'', Elapse 500,
              SearchResponse 1 (Success \<lparr>page = 1, totalPages = 3, movies = [''abc1'']\<rparr>)]
          :: string MoviesStore)
       = [(''abc'', 1), (''abc'', 1)]
   \<and> searchCalls
        (run [SearchForString ''abc'', Elapse 500,
              SearchResponse 1 (Success \<lparr>page = 1, totalPages = 3, movies = [''abc1'']\<rparr>),
              SetCurrentPage 0]
          :: string MoviesStore)
       = [(''abc'', 1), (''abc'', 1), (''abc'', 0)]"
  by (simp add: store_defs)

subsection \<open>Short and empty queries\<close>

text \<open>
  C6 at a concrete run. The query \<open>abc\<close> is committed and answered, page 2 is
  selected and answered, and then the short query \<open>ab\<close> is committed. The commit of
  \<open>ab\<close> issues a fourth remote call, for \<open>(abc, 1)\<close>: the \<open>map(() => 1)\<close> branch is
  not behind \<open>filter(isQueryValid)\<close>, so the first \<open>combineLatest\<close> emits with the
  last valid query. When that call is answered the window changes from page 2 to page 1.
  The BadInput error does appear 500 ms after the commit.
\<close>

theorem short_query_repeats_search:
  "searchCalls
     (run [SearchForString ''abc'', Elapse 500,
           SearchResponse 1 (Success \<lparr>page = 1, totalPages = 3, movies = [''abc1'']\<rparr>),
           SelectPage 2,
           SearchResponse 2 (Success \<lparr>page = 2, totalPages = 3, movies = [''abc2'']\<rparr>),
           SearchForString ''ab'', Elapse 500] :: string MoviesStore)
     = [(''abc'', 1), (''abc'', 1), (''abc'', 2), (''abc'', 1)]
   \<and> moviesResponses
       (run [SearchForString ''abc'', Elapse 500,
             SearchResponse 1 (Success \<lparr>page = 1, totalPages = 3, movies = [''abc1'']\<rparr>),
             SelectPage 2,
             SearchResponse 2 (Success \<lparr>page = 2, totalPages = 3, movies = [''abc2'']\<rparr>),
             SearchForString ''ab'', Elapse 500] :: string MoviesStore)
     = [\<lparr>page = 2, totalPages = 3, movies = [''abc2'']\<rparr>]
   \<and> moviesResponses
       (run [SearchForString ''abc'', Elapse 500,
             SearchResponse 1 (Success \<lparr>page = 1, totalPages = 3, movies = [''abc1'']\<rparr>),
             SelectPage 2,
             SearchResponse 2 (Success \<lparr>page = 2, totalPages = 3, movies = [''abc2'']\<rparr>),
             SearchForString ''ab'', Elapse 500,
             SearchResponse 3 (Success \<lparr>page = 1, totalPages = 3, movies = [''abc1'']\<rparr>),
             Elapse 500] :: string MoviesStore)
     = [\<lparr>page = 1, totalPages = 3, movies = [''abc1'']\<rparr>]
   \<and> error
       (run [SearchForString ''abc'', Elapse 500,
             SearchResponse 1 (Success \<lparr>page = 1, totalPages = 3, movies = [''abc1'']\<rparr>),
             SelectPage 2,
             SearchResponse 2 (Success \<lparr>page = 2, totalPages = 3, movies = [''abc2'']\<rparr>),
             SearchForString ''ab'', Elapse 500,
             SearchResponse 3 (Success \<lparr>page = 1, totalPages = 3, movies = [''abc1'']\<rparr>),
             Elapse 500] :: string MoviesStore)
     = Some BAD_INPUT"
  by (simp add: store_defs)

text \<open>
  C7 at a concrete run. The BadInput error is active and page 2 of \<open>abc\<close> is in the
  window when the empty query is committed. The commit clears the error at once and does
  not touch the window itself, but it issues a fifth remote call, for \<open>(abc, 1)\<close>: as
  for the short query above, the \<open>map(() => 1)\<close> branch is not behind
  \<open>filter(isQueryValid)\<close>. When that call is answered the window changes from page 2
  to page 1.
\<close>

theorem empty_query_repeats_search:
  "error
     (run [SearchForString ''abc'', Elapse 500,
           SearchResponse 1 (Success \<lparr>page = 1, totalPages = 3, movies = [''abc1'']\<rparr>),
           SearchForString ''ab'', Elapse 1000,
           SearchResponse 2 (Success \<lparr>page = 1, totalPages = 3, movies = [''abc1'']\<rparr>),
           SelectPage 2,
           SearchResponse 3 (Success \<lparr>page = 2, totalPages = 3, movies = [''abc2'']\<rparr>),
           SearchForString ''''] :: string MoviesStore)
     = Some BAD_INPUT
   \<and> moviesResponses
       (run [SearchForString ''abc'', Elapse 500,
             SearchResponse 1 (Success \<lparr>page = 1, totalPages = 3, movies = [''abc1'']\<rparr>),
             SearchForString ''ab'', Elapse 1000,
             SearchResponse 2 (Success \<lparr>page = 1, totalPages = 3, movies = [''abc1'']\<rparr>),
             SelectPage 2,
             SearchResponse 3 (Success \<lparr>page = 2, totalPages = 3, movies = [''abc2'']\<rparr>),
             SearchForString ''''] :: string MoviesStore)
     = [\<lparr>page = 2, totalPages = 3, movies = [''abc2'']\<rparr>]
   \<and> error
       (run [SearchForString ''abc'', Elapse 500,
             SearchResponse 1 (Success \<lparr>page = 1, totalPages = 3, movies = [''abc1'']\<rparr>),
             SearchForString ''ab'', Elapse 1000,
             SearchResponse 2 (Success \<lparr>page = 1, totalPages = 3, movies = [''abc1'']\<rparr>),
             SelectPage 2,
             SearchResponse 3 (Success \<lparr>page = 2, totalPages = 3, movies = [''abc2'']\<rparr>),
             SearchForString '''', Elapse 500] :: string MoviesStore)
     = None
   \<and> searchCalls
       (run [SearchForString ''abc'', Elapse 500,
             SearchResponse 1 (Success \<lparr>page = 1, totalPages = 3, movies = [''abc1'']\<rparr>),
             SearchForString ''ab'', Elapse 1000,
             SearchResponse 2 (Success \<lparr>page = 1, totalPages = 3, movies = [''abc1'']\<rparr>),
             SelectPage 2,
             SearchResponse 3 (Success \<lparr>page = 2, totalPages = 3, movies = [''abc2'']\<rparr>),
             SearchForString '''', Elapse 500] :: string MoviesStore)
     = [(''abc'', 1), (''abc'', 1), (''abc'', 1), (''abc'', 2), (''abc'', 1)]
   \<and> moviesResponses
       (run [SearchForString ''abc'', Elapse 500,
             SearchResponse 1 (Success \<lparr>page = 1, totalPages = 3, movies = [''abc1'']\<rparr>),
             SearchForString ''ab'', Elapse 1000,
             SearchResponse 2 (Success \<lparr>page = 1, totalPages = 3, movies = [''abc1'']\<rparr>),
             SelectPage 2,
             SearchResponse 3 (Success \<lparr>page = 2, totalPages = 3, movies = [''abc2'']\<rparr>),
             SearchForString '''', Elapse 500] :: string MoviesStore)
     = [\<lparr>page = 2, totalPages = 3, movies = [''abc2'']\<rparr>]
   \<and> moviesResponses
       (run [SearchForString ''abc'', Elapse 500,
             SearchResponse 1 (Success \<lparr>page = 1, totalPages = 3, movies = [''abc1'']\<rparr>),
             SearchForString ''ab'', Elapse 1000,
             SearchResponse 2 (Success \<lparr>page = 1, totalPages = 3, movies = [''abc1'']\<rparr>),
             SelectPage 2,
             SearchResponse 3 (Success \<lparr>page = 2, totalPages = 3, movies = [''abc2'']\<rparr>),
             SearchForString '''', Elapse 500,
             SearchResponse 4 (Success \<lparr>page = 1, totalPages = 3, movies = [''abc1'']\<rparr>)]
         :: string MoviesStore)
     = [\<lparr>page = 1, totalPages = 3, movies = [''abc1'']\<rparr>]"
  by (simp add: store_defs BAD_INPUT_def)

subsection \<open>Failures of the remote client\<close>

text \<open>
  C8, as the code has it. When the call in flight of the fresh-search pipeline or of
  the load-more pipeline fails, the error becomes \<open>SERVER_ERROR\<close>, which is the
  ServerError with the fixed message; one entry with the cause is logged; the window is
  unchanged; and the failure goes to the \<open>error\<close> callback of the subscription, so no
  error escapes from the store. The failure of a call that is not, or no longer, the one
  in flight of its pipeline is not seen at all: the store stays as it is, with no error
  set and nothing logged.
\<close>

theorem remote_failure_server_error:
  "(searchInFlight s = Some i
      \<longrightarrow> error (searchResponse i (Failure cause) s) = Some SERVER_ERROR
        \<and> loggedErrors (searchResponse i (Failure cause) s)
            = loggedErrors s @ [(''Failed getting movies: '', cause)]
        \<and> moviesResponses (searchResponse i (Failure cause) s) = moviesResponses s
        \<and> unhandledErrors (searchResponse i (Failure cause) s) = unhandledErrors s)
   \<and> (moreInFlight s' = Some j
      \<longrightarrow> error (moreResponse j (Failure cause) s') = Some SERVER_ERROR
        \<and> loggedErrors (moreResponse j (Failure cause) s')
            = loggedErrors s' @ [(''Failed getting more movies for page: '', cause)]
        \<and> moviesResponses (moreResponse j (Failure cause) s') = moviesResponses s'
        \<and> unhandledErrors (moreResponse j (Failure cause) s') = unhandledErrors s')
   \<and> (searchInFlight t \<noteq> Some k \<longrightarrow> searchResponse k (Failure cause) t = t)
   \<and> (moreInFlight t \<noteq> Some k \<longrightarrow> moreResponse k (Failure cause) t = t)
   \<and> SERVER_ERROR
       = \<lparr>type = ServerError, message = ''Oops, something went wrong. Please try again later.''\<rparr>"
  using searchResponse_failure [of s i cause] moreResponse_failure [of s' j cause]
    stale_response [of t k "Failure cause"]
  by (simp add: SERVER_ERROR_def)

text \<open>
  The theorem at a failing first search, at a failing load-more call, and at the
  failure of call 0, which call 1 has superseded.
\<close>

theorem remote_failure_server_error_witness:
  "searchInFlight (run [SearchForString ''abc'', Elapse 500] :: string MoviesStore) = Some 1
   \<and> error (searchResponse 1 (Failure ''timeout'')
        (run [SearchForString ''abc'', Elapse 500] :: string MoviesStore)) = Some SERVER_ERROR
   \<and> loggedErrors (searchResponse 1 (Failure ''timeout'')
        (run [SearchForString ''abc'', Elapse 500] :: string MoviesStore))
       = [(''Failed getting movies: '', ''timeout'')]
   \<and> unhandledErrors (searchResponse 1 (Failure ''timeout'')
        (run [SearchForString ''abc'', Elapse 500] :: string MoviesStore)) = []
   \<and> moreInFlight
        (run [SearchForString ''abc'', Elapse 500,
              SearchResponse 1 (Success \<lparr>page = 1, totalPages = 3, movies = [''abc1'']\<rparr>),
              LoadMore] :: string MoviesStore) = Some 2
   \<and> error (moreResponse 2 (Failure ''timeout'')
        (run [SearchForString ''abc'', Elapse 500,
              SearchResponse 1 (Success \<lparr>page = 1, totalPages = 3, movies = [''abc1'']\<rparr>),
              LoadMore] :: string MoviesStore)) = Some SERVER_ERROR
   \<and> moviesResponses (moreResponse 2 (Failure ''timeout'')
        (run [SearchForString ''abc'', Elapse 500,
              SearchResponse 1 (Success \<lparr>page = 1, totalPages = 3, movies = [''abc1'']\<rparr>),
              LoadMore] :: string MoviesStore))
       = [\<lparr>page = 1, totalPages = 3, movies = [''abc1'']\<rparr>]
   \<and> searchInFlight (run [SearchForString ''abc'', Elapse 500] :: string MoviesStore) \<noteq> Some 0
   \<and> searchResponse 0 (Failure ''timeout'')
        (run [SearchForString ''abc'', Elapse 500] :: string MoviesStore)
       = run [SearchForString ''abc'', Elapse 500]
   \<and> moreResponse 0 (Failure ''timeout'')
        (run [SearchForString ''abc'', Elapse 500] :: string MoviesStore)
       = run [SearchForString ''abc'', Elapse 500]"
  using remote_failure_server_error
    [of "run [SearchForString ''abc'', Elapse 500] :: string MoviesStore" 1 "''timeout''"
      "run [SearchForString ''abc'', Elapse 500,
            SearchResponse 1 (Success \<lparr>page = 1, totalPages = 3, movies = [''abc1'']\<rparr>),
            LoadMore] :: string MoviesStore" 2
      "run [SearchForString ''abc'', Elapse 500] :: string MoviesStore" 0]
  by (simp add: store_defs)

text \<open>
  C8 as stated fails: not every failure of a remote call sets the error. The commit of
  \<open>abc\<close> issues the calls 0 and 1, and call 1 supersedes call 0. When call 0 fails,
  the error stays none and nothing is logged.
\<close>

theorem superseded_failure_counterexample:
  "searchCalls (run [SearchForString ''abc'', Elapse 500] :: string MoviesStore)
     = [(''abc'', 1), (''abc'', 1)]
   \<and> searchInFlight (run [SearchForString ''abc'', Elapse 500] :: string MoviesStore) = Some 1
   \<and> error
       (run [SearchForString ''abc'', Elapse 500, SearchResponse 0 (Failure ''timeout'')]
         :: string MoviesStore)
     = None
   \<and> loggedErrors
       (run [SearchForString ''abc'', Elapse 500, SearchResponse 0 (Failure ''timeout'')]
         :: string MoviesStore)
     = []"
  by (simp add: store_defs)

subsection \<open>Total pages within the window\<close>

text \<open>
  C9 at a concrete run. The remote client reports 10 pages for \<open>abc\<close> and 7 pages for
  \<open>xyz\<close>. Page 1 of \<open>abc\<close> is in the window; \<open>xyz\<close> is typed and \<open>loadMore()\<close> is
  invoked before the debounce interval ends. The load-more pipeline combines the raw
  text, so it asks for \<open>(xyz, 2)\<close> and appends the answer: the window then holds pages
  with \<open>totalPages\<close> 10 and 7.
\<close>

theorem window_mixes_totalPages:
  "searchCalls
     (run [SearchForString ''abc'', Elapse 500,
           SearchResponse 1 (Success \<lparr>page = 1, totalPages = 10, movies = [''abc1'']\<rparr>),
           SearchForString ''xyz'', LoadMore,
           MoreResponse 2 (Success \<lparr>page = 2, totalPages = 7, movies = [''xyz2'']\<rparr>)]
       :: string MoviesStore)
     = [(''abc'', 1), (''abc'', 1), (''xyz'', 2)]
   \<and> map totalPages (moviesResponses
       (run [SearchForString ''abc'', Elapse 500,
             SearchResponse 1 (Success \<lparr>page = 1, totalPages = 10, movies = [''abc1'']\<rparr>),
             SearchForString ''xyz'', LoadMore,
             MoreResponse 2 (Success \<lparr>page = 2, totalPages = 7, movies = [''xyz2'']\<rparr>)]
         :: string MoviesStore))
     = [10, 7]"
  by (simp add: store_defs)

subsection \<open>A window with a gap\<close>

text \<open>
  The two pipelines are independent, so a load-more answer can arrive after a page
  selection has replaced the window. The window with the pages 2 and 9 is reached in
  this way: page 8 is in the window, \<open>loadMore()\<close> asks for page 9, page 2 is selected
  and answered, and then the answer for page 9 arrives.
\<close>

lemma window_with_gap_reachable:
  "moviesResponses
     (run [SearchForString ''abc'', Elapse 500,
           SearchResponse 1 (Success \<lparr>page = 1, totalPages = 9, movies = [''abc1'']\<rparr>),
           SelectPage 8,
           SearchResponse 2 (Success \<lparr>page = 8, totalPages = 9, movies = [''abc8'']\<rparr>),
           LoadMore,
           SelectPage 2,
           SearchResponse 4 (Success \<lparr>page = 2, totalPages = 9, movies = [''Alien'']\<rparr>),
           MoreResponse 3 (Success \<lparr>page = 9, totalPages = 9, movies = [''Brazil'']\<rparr>)]
       :: string MoviesStore)
     = [\<lparr>page = 2, totalPages = 9, movies = [''Alien'']\<rparr>,
        \<lparr>page = 9, totalPages = 9, movies = [''Brazil'']\<rparr>]"
  by (simp add: store_defs)

end
